theory Spec2Isabelle
  imports Complex_Main "HOL-Library.Sublist"
begin

section \<open>Data model of the StockNews component\<close>

text \<open>
  The source is a React component (\<^verbatim>\<open>StockNews\<close>, second version in
  \<^verbatim>\<open>src/unnamed/part_000\<close>) and the search box of \<^verbatim>\<open>App.tsx\<close>.
  JavaScript numbers are modelled as \<^typ>\<open>real\<close>: the model has no NaN and no infinity.
  Rounding to double precision is modelled where a claim depends on it, in the subtraction
  that is compared with the zoom threshold. A \<^verbatim>\<open>useState\<close> cell is a field of the
  record \<open>component\<close>, and an event handler is a function to the state after its updates.
\<close>

text \<open>\<^verbatim>\<open>'all' | '10y' | '5y' | '1y'\<close>\<close>

datatype zoom = ZAll | Z10y | Z5y | Z1y

text \<open>A touch point: \<^verbatim>\<open>clientX\<close>, \<^verbatim>\<open>clientY\<close>.\<close>

type_synonym touch = "real \<times> real"

record NewsItem =
  title :: string
  publisher :: string
  link :: string

record StockHistoryData =
  date :: string
  price :: real

record PredictionData =
  dates :: "string list"
  predictions :: "real list"
  upper_bound :: "real list"
  lower_bound :: "real list"
  last_actual :: real
  last_actual_date :: string

record component =
  news :: "NewsItem list"
  loading :: bool
  error :: "string option"
  historyData :: "StockHistoryData list"
  zoomLevel :: zoom
  isLoading :: bool
  touchStartDistance :: "real option"
  isZooming :: bool
  predictionData :: "PredictionData option"

section \<open>Pinch gesture handlers\<close>

text \<open>\<^verbatim>\<open>Math.hypot(a, b)\<close>, at its exact value.\<close>

definition hypot :: "real \<Rightarrow> real \<Rightarrow> real" where
  "hypot a b = sqrt (a * a + b * b)"

text \<open>The distance between the two contact points, as both handlers compute it.\<close>

definition touchDistance :: "touch \<Rightarrow> touch \<Rightarrow> real" where
  "touchDistance t0 t1 = hypot (fst t0 - fst t1) (snd t0 - snd t1)"

text \<open>
  \<^verbatim>\<open>handleTouchStart\<close>: only an event with exactly two touches writes the state.
\<close>

fun handleTouchStart :: "component \<Rightarrow> touch list \<Rightarrow> component" where
  "handleTouchStart s [t0, t1] =
     s\<lparr>touchStartDistance := Some (touchDistance t0 t1), isZooming := True\<rparr>"
| "handleTouchStart s ts = s"

text \<open>The two updater functions passed to \<^verbatim>\<open>setZoomLevel\<close>.\<close>

fun zoomOut :: "zoom \<Rightarrow> zoom" where
  "zoomOut Z1y = Z5y"
| "zoomOut Z5y = Z10y"
| "zoomOut Z10y = ZAll"
| "zoomOut prev = prev"

fun zoomIn :: "zoom \<Rightarrow> zoom" where
  "zoomIn ZAll = Z10y"
| "zoomIn Z10y = Z5y"
| "zoomIn Z5y = Z1y"
| "zoomIn prev = prev"

definition ZOOM_SENSITIVITY :: real where
  "ZOOM_SENSITIVITY = 50"

text \<open>
  The guard \<^verbatim>\<open>touchStartDistance\<close> of the source is a truthiness test on
  \<^verbatim>\<open>number | null\<close>: \<^verbatim>\<open>null\<close> and \<^verbatim>\<open>0\<close> are both falsy.
\<close>

definition truthy :: "real option \<Rightarrow> bool" where
  "truthy v = (case v of None \<Rightarrow> False | Some d \<Rightarrow> d \<noteq> 0)"

subsection \<open>Double precision\<close>

text \<open>
  The result of an arithmetic operation on doubles is the exact result rounded to the
  nearest double, ties to the even significand. \<open>ulpOf x\<close> is the distance between
  neighbouring doubles around \<open>x\<close>: 52 binary places below the leading bit of \<open>x\<close>, and
  never below the subnormal spacing. Results beyond the largest double (infinity) are
  outside the model.
\<close>

definition roundHalfEven :: "real \<Rightarrow> int" where
  "roundHalfEven q =
     (let f = \<lfloor>q\<rfloor> in
      if q - of_int f < 1 / 2 then f
      else if q - of_int f > 1 / 2 then f + 1
      else if even f then f else f + 1)"

definition ulpOf :: "real \<Rightarrow> real" where
  "ulpOf x = 2 powr of_int (max \<lfloor>log 2 \<bar>x\<bar>\<rfloor> (- 1022) - 52)"

definition roundDouble :: "real \<Rightarrow> real" where
  "roundDouble x = (if x = 0 then 0 else ulpOf x * of_int (roundHalfEven (x / ulpOf x)))"

subsection \<open>The move handler\<close>

text \<open>
  \<^verbatim>\<open>handleTouchMove\<close> is a closure of the render that created it: it reads
  \<^verbatim>\<open>isZooming\<close> and \<^verbatim>\<open>touchStartDistance\<close> from that render (\<open>rendered\<close>), while
  \<^verbatim>\<open>setZoomLevel(prev => ...)\<close> steps the window of the latest state and
  \<^verbatim>\<open>setTouchStartDistance\<close> overwrites its reference (\<open>s\<close>). The two states are the
  same when the component has re-rendered since the last update; they differ when a
  second event is handled before the re-render. \<^verbatim>\<open>zoomDelta\<close> is the double nearest to
  the difference of the two distances.
\<close>

fun handleTouchMove :: "component \<Rightarrow> component \<Rightarrow> touch list \<Rightarrow> component" where
  "handleTouchMove rendered s [t0, t1] =
     (if isZooming rendered \<and> truthy (touchStartDistance rendered) then
        (let currentDistance = touchDistance t0 t1;
             zoomDelta = roundDouble (currentDistance - the (touchStartDistance rendered))
         in if \<bar>zoomDelta\<bar> > ZOOM_SENSITIVITY then
              (if zoomDelta < 0
               then s\<lparr>zoomLevel := zoomOut (zoomLevel s),
                      touchStartDistance := Some currentDistance\<rparr>
               else s\<lparr>zoomLevel := zoomIn (zoomLevel s),
                      touchStartDistance := Some currentDistance\<rparr>)
            else s)
      else s)"
| "handleTouchMove rendered s ts = s"

text \<open>A move handled after the component has re-rendered: the closure is the latest state.\<close>

definition moveRendered :: "component \<Rightarrow> touch list \<Rightarrow> component" where
  "moveRendered s ts = handleTouchMove s s ts"

definition handleTouchEnd :: "component \<Rightarrow> component" where
  "handleTouchEnd s = s\<lparr>isZooming := False, touchStartDistance := None\<rparr>"


text \<open>
  The gesture of the spec's test: a two-point start, two moves and the end of contact,
  with a re-render after every event (\<open>pinch\<close>), and with the second move handled before
  the re-render that follows the first, by the closure of the render after the start
  (\<open>pinchBatched\<close>).
\<close>

definition pinch :: "component \<Rightarrow> touch list \<Rightarrow> touch list \<Rightarrow> touch list \<Rightarrow> component" where
  "pinch s a b c = handleTouchEnd (moveRendered (moveRendered (handleTouchStart s a) b) c)"

definition pinchBatched ::
  "component \<Rightarrow> touch list \<Rightarrow> touch list \<Rightarrow> touch list \<Rightarrow> component" where
  "pinchBatched s a b c =
     handleTouchEnd
       (handleTouchMove (handleTouchStart s a) (moveRendered (handleTouchStart s a) b) c)"

text \<open>
  A list of move events, each with the closure that handles it, applied one after the
  other to the latest state.
\<close>

definition movesWith :: "component \<Rightarrow> (component \<times> touch list) list \<Rightarrow> component" where
  "movesWith s ms = foldl (\<lambda>u m. handleTouchMove (fst m) u (snd m)) s ms"

text \<open>A freshly mounted component showing window \<open>z\<close>: no gesture, nothing fetched.\<close>

definition idle :: "zoom \<Rightarrow> component" where
  "idle z = \<lparr>news = [], loading = False, error = None, historyData = [], zoomLevel = z,
     isLoading = False, touchStartDistance = None, isZooming = False, predictionData = None\<rparr>"

section \<open>Time window filter\<close>

text \<open>
  A JavaScript \<^verbatim>\<open>Date\<close> is modelled by its calendar fields in one fixed time zone:
  year, month (0 to 11, as \<^verbatim>\<open>getMonth\<close> counts), day of the month and the
  milliseconds since midnight. \<^verbatim>\<open>>=\<close> on two dates compares their time values, which
  for calendar fields in one zone is the lexicographic order.
\<close>

record jsDate =
  year :: int
  month :: nat
  day :: nat
  msOfDay :: nat

definition dateGe :: "jsDate \<Rightarrow> jsDate \<Rightarrow> bool" where
  "dateGe a b =
     (year a > year b \<or> (year a = year b \<and>
       (month a > month b \<or> (month a = month b \<and>
         (day a > day b \<or> (day a = day b \<and> msOfDay a \<ge> msOfDay b))))))"

definition leapYear :: "int \<Rightarrow> bool" where
  "leapYear y = (y mod 4 = 0 \<and> (y mod 100 \<noteq> 0 \<or> y mod 400 = 0))"

definition getFullYear :: "jsDate \<Rightarrow> int" where
  "getFullYear d = year d"

text \<open>
  \<^verbatim>\<open>setFullYear(y)\<close> keeps month, day and time; the one date that does not exist in
  every year, 29 February, rolls over to 1 March of a year that is not a leap year.
\<close>

definition setFullYear :: "jsDate \<Rightarrow> int \<Rightarrow> jsDate" where
  "setFullYear d y =
     (if month d = 1 \<and> day d = 29 \<and> \<not> leapYear y
      then d\<lparr>year := y, month := 2, day := 1\<rparr>
      else d\<lparr>year := y\<rparr>)"

text \<open>
  \<^verbatim>\<open>getFilteredHistoryData\<close>. The source reads the clock twice
  (\<^verbatim>\<open>now = new Date()\<close> and \<^verbatim>\<open>cutoffDate = new Date()\<close>); both readings are
  arguments. \<open>parseDate\<close> is \<^verbatim>\<open>new Date(item.date)\<close>, with \<open>None\<close> for an invalid date,
  which compares false with everything.
\<close>

definition afterCutoff :: "(string \<Rightarrow> jsDate option) \<Rightarrow> jsDate \<Rightarrow> StockHistoryData \<Rightarrow> bool" where
  "afterCutoff parseDate cutoffDate item =
     (case parseDate (date item) of None \<Rightarrow> False | Some d \<Rightarrow> dateGe d cutoffDate)"

definition getFilteredHistoryData ::
  "(string \<Rightarrow> jsDate option) \<Rightarrow> jsDate \<Rightarrow> jsDate \<Rightarrow> component \<Rightarrow> StockHistoryData list" where
  "getFilteredHistoryData parseDate now cutoffDate s =
     (if length (historyData s) = 0 then []
      else case zoomLevel s of
        Z1y \<Rightarrow> filter (afterCutoff parseDate (setFullYear cutoffDate (getFullYear now - 1)))
                 (historyData s)
      | Z5y \<Rightarrow> filter (afterCutoff parseDate (setFullYear cutoffDate (getFullYear now - 5)))
                 (historyData s)
      | Z10y \<Rightarrow> filter (afterCutoff parseDate (setFullYear cutoffDate (getFullYear now - 10)))
                 (historyData s)
      | ZAll \<Rightarrow> historyData s)"

text \<open>The number of years a window spans, and the instant that many calendar years before.\<close>

fun windowYears :: "zoom \<Rightarrow> int" where
  "windowYears Z1y = 1"
| "windowYears Z5y = 5"
| "windowYears Z10y = 10"
| "windowYears ZAll = 0"

definition yearsBefore :: "jsDate \<Rightarrow> int \<Rightarrow> jsDate" where
  "yearsBefore now n = setFullYear now (year now - n)"

section \<open>Chart data\<close>

text \<open>The exceptions of the engine and of date-fns that the modelled functions raise.\<close>

datatype js_error = TypeError | RangeError

text \<open>
  A dataset of the chart: its label (the third prediction dataset has none) and its values,
  \<open>None\<close> being \<^verbatim>\<open>null\<close>. Colours and line styles are left out.
\<close>

record dataset =
  label :: "string option"
  data :: "real option list"

record ChartData =
  labels :: "string list"
  datasets :: "dataset list"

text \<open>\<^verbatim>\<open>Array(n).fill(null).concat(xs)\<close>\<close>

definition padded :: "nat \<Rightarrow> real list \<Rightarrow> real option list" where
  "padded n xs = replicate n None @ map Some xs"

text \<open>
  \<^verbatim>\<open>filteredData.map(item => format(new Date(item.date), 'MMM dd, yyyy'))\<close>.
  \<open>parseDate\<close> is \<^verbatim>\<open>new Date(item.date)\<close> as in the filter, and \<open>fmt\<close> is the
  \<^verbatim>\<open>format\<close> of date-fns with this pattern on a valid date; on an invalid date
  \<^verbatim>\<open>format\<close> raises a RangeError, which ends the map.
\<close>

fun formatAll ::
  "(string \<Rightarrow> jsDate option) \<Rightarrow> (jsDate \<Rightarrow> string) \<Rightarrow> StockHistoryData list
   \<Rightarrow> js_error + string list" where
  "formatAll parseDate fmt [] = Inr []"
| "formatAll parseDate fmt (item # items) =
     (case parseDate (date item) of
        None \<Rightarrow> Inl RangeError
      | Some d \<Rightarrow>
          (case formatAll parseDate fmt items of
             Inl e \<Rightarrow> Inl e
           | Inr ls \<Rightarrow> Inr (fmt d # ls)))"

text \<open>
  \<^verbatim>\<open>getChartData\<close>. The datasets are built first; the labels are computed in the
  returned object, so a RangeError there leaves no result.
\<close>

definition getChartData ::
  "(jsDate \<Rightarrow> string) \<Rightarrow> (string \<Rightarrow> jsDate option) \<Rightarrow> jsDate \<Rightarrow> jsDate \<Rightarrow> component
   \<Rightarrow> js_error + ChartData" where
  "getChartData fmt parseDate now cutoffDate s =
     (let filteredData = getFilteredHistoryData parseDate now cutoffDate s;
          historical = [\<lparr>label = Some ''Historical Price'',
                         data = map (\<lambda>item. Some (price item)) filteredData\<rparr>];
          ds = (case predictionData s of
                  None \<Rightarrow> historical
                | Some p \<Rightarrow> historical @
                    [\<lparr>label = Some ''Predicted Price'',
                      data = padded (length filteredData) (predictions p)\<rparr>,
                     \<lparr>label = Some ''Confidence Interval'',
                      data = padded (length filteredData) (upper_bound p)\<rparr>,
                     \<lparr>label = None,
                      data = padded (length filteredData) (lower_bound p)\<rparr>])
      in case formatAll parseDate fmt filteredData of
           Inl e \<Rightarrow> Inl e
         | Inr ls \<Rightarrow>
             Inr \<lparr>labels = ls @ (case predictionData s of None \<Rightarrow> [] | Some p \<Rightarrow> dates p),
                  datasets = ds\<rparr>)"

text \<open>The labels of a result, or the error.\<close>

definition labelsOf :: "js_error + ChartData \<Rightarrow> js_error + string list" where
  "labelsOf r = (case r of Inl e \<Rightarrow> Inl e | Inr cd \<Rightarrow> Inr (labels cd))"

text \<open>The dates of a history all parse: each is a calendar date, as the spec's data model has it.\<close>

definition datesParse :: "(string \<Rightarrow> jsDate option) \<Rightarrow> StockHistoryData list \<Rightarrow> bool" where
  "datesParse parseDate h = list_all (\<lambda>item. parseDate (date item) \<noteq> None) h"

section \<open>Analysis summary\<close>

text \<open>
  \<^verbatim>\<open>array.reduce((a, b) => a + b)\<close> with no initial value: the first element starts the
  sum, and an empty array raises a TypeError.
\<close>

definition reduceAdd :: "real list \<Rightarrow> js_error + real" where
  "reduceAdd array = (case array of [] \<Rightarrow> Inl TypeError | x # xs \<Rightarrow> Inr (foldl (+) x xs))"

text \<open>\<^verbatim>\<open>Math.std\<close>, the population standard deviation the source adds to \<^verbatim>\<open>Math\<close>.\<close>

definition std :: "real list \<Rightarrow> js_error + real" where
  "std array =
     (let n = real (length array) in
      case reduceAdd array of
        Inl e \<Rightarrow> Inl e
      | Inr sm \<Rightarrow>
          (let mean = sm / n in
           case reduceAdd (map (\<lambda>x. (x - mean) ^ 2) array) of
             Inl e \<Rightarrow> Inl e
           | Inr sq \<Rightarrow> Inr (sqrt (sq / n))))"

text \<open>\<^verbatim>\<open>Array.prototype.every\<close> with a callback of the element and its index.\<close>

fun everyFrom :: "nat \<Rightarrow> (real \<Rightarrow> nat \<Rightarrow> bool) \<Rightarrow> real list \<Rightarrow> bool" where
  "everyFrom i p [] = True"
| "everyFrom i p (x # xs) = (p x i \<and> everyFrom (Suc i) p xs)"

definition every :: "(real \<Rightarrow> nat \<Rightarrow> bool) \<Rightarrow> real list \<Rightarrow> bool" where
  "every p xs = everyFrom 0 p xs"

record MarketFactors =
  trend :: string
  volatility :: string
  confidence :: real

definition getMarketFactors :: "real list \<Rightarrow> real \<Rightarrow> js_error + MarketFactors" where
  "getMarketFactors preds lastPrice =
     (let trend =
            (if every (\<lambda>price index. index = 0 \<or> price \<ge> preds ! (index - 1)) preds
             then ''upward''
             else if every (\<lambda>price index. index = 0 \<or> price \<le> preds ! (index - 1)) preds
             then ''downward''
             else ''mixed'')
      in case std preds of
           Inl e \<Rightarrow> Inl e
         | Inr sd \<Rightarrow>
             (let volatility = sd / lastPrice * 100;
                  isHighVolatility = volatility > 5
              in Inr \<lparr>trend = trend,
                      volatility = (if isHighVolatility then ''High'' else ''Moderate to Low''),
                      confidence = 100 - volatility * 10\<rparr>))"

text \<open>The two orders the trend is about.\<close>

definition nonDecreasing :: "real list \<Rightarrow> bool" where
  "nonDecreasing xs = sorted_wrt (\<le>) xs"

definition nonIncreasing :: "real list \<Rightarrow> bool" where
  "nonIncreasing xs = sorted_wrt (\<ge>) xs"

section \<open>The three fetches of a symbol\<close>

text \<open>
  Each fetch is an \<^verbatim>\<open>async\<close> function: it writes the state before its first
  \<^verbatim>\<open>await\<close> (\<open>\<dots>Begin\<close>) and again when the response has settled (\<open>\<dots>Settle\<close>).
  Other handlers may run in between. What came back is an \<open>outcome\<close>: the request was
  rejected with an error message (\<open>None\<close> when the thrown value is no \<^verbatim>\<open>Error\<close>), the
  response was not ok (its status text, and the \<^verbatim>\<open>detail\<close> of its body), or it was ok
  with a body.
\<close>

datatype 'a outcome = Rejected "string option" | NotOk string "string option" | Body 'a

text \<open>\<^verbatim>\<open>a || b\<close> on strings: the empty string is falsy.\<close>

definition orElse :: "string \<Rightarrow> string \<Rightarrow> string" where
  "orElse a b = (if a = [] then b else a)"

text \<open>\<^verbatim>\<open>err instanceof Error ? err.message : fallback\<close>\<close>

definition errMessage :: "string option \<Rightarrow> string \<Rightarrow> string" where
  "errMessage e fallback = (case e of Some m \<Rightarrow> m | None \<Rightarrow> fallback)"

definition fetchNewsBegin :: "string \<Rightarrow> component \<Rightarrow> component" where
  "fetchNewsBegin symb s = (if symb = [] then s else s\<lparr>loading := True, error := None\<rparr>)"

text \<open>The body of the news response is \<^verbatim>\<open>data.news\<close>, \<open>None\<close> when it is missing.\<close>

definition fetchNewsSettle :: "string \<Rightarrow> NewsItem list option outcome \<Rightarrow> component \<Rightarrow> component" where
  "fetchNewsSettle symb r s =
     (if symb = [] then s
      else case r of
        Body d \<Rightarrow> s\<lparr>news := (case d of Some n \<Rightarrow> n | None \<Rightarrow> []), loading := False\<rparr>
      | NotOk statusText detail \<Rightarrow>
          s\<lparr>error := Some (orElse statusText ''Failed to fetch news''), loading := False\<rparr>
      | Rejected e \<Rightarrow>
          s\<lparr>error := Some (errMessage e ''Failed to fetch news''), loading := False\<rparr>)"

definition fetchHistoricalDataBegin :: "string \<Rightarrow> component \<Rightarrow> component" where
  "fetchHistoricalDataBegin symb s =
     (if symb = [] then s else s\<lparr>isLoading := True, error := None\<rparr>)"

text \<open>
  The body of the history response is \<^verbatim>\<open>data.history\<close>, \<open>None\<close> when it is missing or
  not an array.
\<close>

definition fetchHistoricalDataSettle ::
  "string \<Rightarrow> StockHistoryData list option outcome \<Rightarrow> component \<Rightarrow> component" where
  "fetchHistoricalDataSettle symb r s =
     (if symb = [] then s
      else case r of
        Body (Some h) \<Rightarrow> s\<lparr>historyData := h, isLoading := False\<rparr>
      | Body None \<Rightarrow> s\<lparr>error := Some ''Invalid data format received'', isLoading := False\<rparr>
      | NotOk statusText detail \<Rightarrow>
          s\<lparr>error := Some (orElse (case detail of Some d \<Rightarrow> d | None \<Rightarrow> [])
                               ''Failed to fetch historical data''),
            isLoading := False\<rparr>
      | Rejected e \<Rightarrow>
          s\<lparr>error := Some (errMessage e ''Failed to fetch historical data''),
            isLoading := False\<rparr>)"

definition fetchPredictionsBegin :: "string \<Rightarrow> component \<Rightarrow> component" where
  "fetchPredictionsBegin symb s =
     (if symb = [] then s else s\<lparr>isLoading := True, error := None\<rparr>)"

text \<open>A failed prediction fetch is only logged: its \<^verbatim>\<open>catch\<close> writes no state.\<close>

definition fetchPredictionsSettle ::
  "string \<Rightarrow> PredictionData outcome \<Rightarrow> component \<Rightarrow> component" where
  "fetchPredictionsSettle symb r s =
     (if symb = [] then s
      else case r of
        Body d \<Rightarrow> s\<lparr>predictionData := Some d, isLoading := False\<rparr>
      | NotOk statusText detail \<Rightarrow> s\<lparr>isLoading := False\<rparr>
      | Rejected e \<Rightarrow> s\<lparr>isLoading := False\<rparr>)"

section \<open>Ranking of search suggestions\<close>

record StockSuggestion =
  symbol :: string
  name :: string
  exchange :: string

text \<open>\<^verbatim>\<open>String.prototype.toUpperCase\<close>, on the ASCII letters.\<close>

definition upperChar :: "char \<Rightarrow> char" where
  "upperChar c =
     (if 97 \<le> (of_char c :: nat) \<and> (of_char c :: nat) \<le> 122
      then char_of ((of_char c :: nat) - 32) else c)"

definition toUpperCase :: "string \<Rightarrow> string" where
  "toUpperCase s = map upperChar s"

text \<open>\<^verbatim>\<open>s.startsWith(q)\<close> and \<^verbatim>\<open>s.includes(q)\<close>\<close>

definition startsWith :: "string \<Rightarrow> string \<Rightarrow> bool" where
  "startsWith s q = (take (length q) s = q)"

fun includesStr :: "string \<Rightarrow> string \<Rightarrow> bool" where
  "includesStr [] q = (q = [])"
| "includesStr (c # s) q = (startsWith (c # s) q \<or> includesStr s q)"

text \<open>The comparator passed to \<^verbatim>\<open>sort\<close> in \<^verbatim>\<open>fetchSuggestions\<close>.\<close>

definition compareSuggestions :: "string \<Rightarrow> StockSuggestion \<Rightarrow> StockSuggestion \<Rightarrow> int" where
  "compareSuggestions query a b =
     (if symbol a = toUpperCase query then -1
      else if symbol b = toUpperCase query then 1
      else let aStartsWith = startsWith (symbol a) (toUpperCase query);
               bStartsWith = startsWith (symbol b) (toUpperCase query)
           in if aStartsWith \<and> \<not> bStartsWith then -1
              else if \<not> aStartsWith \<and> bStartsWith then 1
              else let aContains = includesStr (symbol a) (toUpperCase query);
                       bContains = includesStr (symbol b) (toUpperCase query)
                   in if aContains \<and> \<not> bContains then -1
                      else if \<not> aContains \<and> bContains then 1
                      else 0)"

subsection \<open>The engine's sort\<close>

text \<open>
  \<^verbatim>\<open>Array.prototype.sort\<close> belongs to the JavaScript engine, not to the repository.
  ECMAScript fixes its result (sorted and stable) only for a consistent comparator and
  leaves the order implementation-defined otherwise. The model is the algorithm of V8
  (Chrome, Node.js) on arrays of fewer than 64 elements, where it is the whole sort: the
  first run is found by comparing each element with its predecessor
  (\<^verbatim>\<open>CountAndMakeRun\<close>; a strictly descending run is reversed), and the remaining
  elements are put in place one by one by binary search (\<^verbatim>\<open>BinaryInsertionSort\<close>).
  The comparator is always called as (later element, earlier element).
\<close>

fun countRun :: "('a \<Rightarrow> 'a \<Rightarrow> int) \<Rightarrow> bool \<Rightarrow> 'a \<Rightarrow> 'a list \<Rightarrow> 'a list \<times> 'a list" where
  "countRun cmp isDescending previousElement [] = ([], [])"
| "countRun cmp isDescending previousElement (x # xs) =
     (let order = cmp x previousElement in
      if (if isDescending then order \<ge> 0 else order < 0) then ([], x # xs)
      else (case countRun cmp isDescending x xs of (run, rest) \<Rightarrow> (x # run, rest)))"

fun countAndMakeRun :: "('a \<Rightarrow> 'a \<Rightarrow> int) \<Rightarrow> 'a list \<Rightarrow> 'a list \<times> 'a list" where
  "countAndMakeRun cmp (a # b # xs) =
     (let isDescending = cmp b a < 0 in
      case countRun cmp isDescending b xs of
        (run, rest) \<Rightarrow> (if isDescending then rev (a # b # run) else a # b # run, rest))"
| "countAndMakeRun cmp xs = (xs, [])"

function binarySearch :: "('a \<Rightarrow> 'a \<Rightarrow> int) \<Rightarrow> 'a \<Rightarrow> 'a list \<Rightarrow> nat \<Rightarrow> nat \<Rightarrow> nat" where
  "binarySearch cmp pivot xs left right =
     (if left < right then
        (let mid = left + (right - left) div 2 in
         if cmp pivot (xs ! mid) < 0 then binarySearch cmp pivot xs left mid
         else binarySearch cmp pivot xs (mid + 1) right)
      else left)"
  by pat_completeness auto
termination
  by (relation "measure (\<lambda>(cmp, pivot, xs, left, right). right - left)") auto

definition binaryInsert :: "('a \<Rightarrow> 'a \<Rightarrow> int) \<Rightarrow> 'a list \<Rightarrow> 'a \<Rightarrow> 'a list" where
  "binaryInsert cmp xs pivot =
     (let left = binarySearch cmp pivot xs 0 (length xs)
      in take left xs @ pivot # drop left xs)"

definition arraySort :: "('a \<Rightarrow> 'a \<Rightarrow> int) \<Rightarrow> 'a list \<Rightarrow> 'a list" where
  "arraySort cmp xs =
     (case countAndMakeRun cmp xs of (run, rest) \<Rightarrow> foldl (binaryInsert cmp) run rest)"

text \<open>
  \<^verbatim>\<open>sortedSuggestions\<close>: the suggestions of the response (\<open>None\<close> when the field is
  missing, \<^verbatim>\<open>|| []\<close>) sorted with the comparator.
\<close>

definition sortedSuggestions :: "string \<Rightarrow> StockSuggestion list option \<Rightarrow> StockSuggestion list" where
  "sortedSuggestions query suggestions =
     arraySort (compareSuggestions query) (case suggestions of None \<Rightarrow> [] | Some xs \<Rightarrow> xs)"

text \<open>
  What \<^verbatim>\<open>fetchSuggestions\<close> stores in \<^verbatim>\<open>suggestions\<close>. An empty query makes no
  request and stores the empty list. Otherwise the request either fails (axios throws:
  \<open>SearchFailed\<close>) or answers with a body, of which the fields \<^verbatim>\<open>error\<close> and
  \<^verbatim>\<open>suggestions\<close> are read (\<open>None\<close> when the field is missing); a truthy
  \<^verbatim>\<open>error\<close> stores the empty list.
\<close>

datatype searchResponse =
  SearchData "string option" "StockSuggestion list option"
| SearchFailed

definition fetchSuggestions :: "string \<Rightarrow> searchResponse \<Rightarrow> StockSuggestion list" where
  "fetchSuggestions query response =
     (if query = [] then []
      else case response of
        SearchData err suggestions \<Rightarrow>
          (if err \<noteq> None \<and> err \<noteq> Some [] then []
           else sortedSuggestions query suggestions)
      | SearchFailed \<Rightarrow> [])"

text \<open>
  The rank of an item under the spec's rules: exact match, then prefix, then substring,
  then the rest.
\<close>

definition rankClass :: "string \<Rightarrow> StockSuggestion \<Rightarrow> nat" where
  "rankClass query a =
     (if symbol a = toUpperCase query then 0
      else if startsWith (symbol a) (toUpperCase query) then 1
      else if includesStr (symbol a) (toUpperCase query) then 2
      else 3)"

subsection \<open>Where the exact matches stand in a list\<close>

text \<open>
  \<open>exactsFirst E xs\<close>: the items of \<open>xs\<close> that satisfy \<open>E\<close> come before all the others;
  \<open>exactsLast\<close> is its mirror image. \<open>exactWins E cmp\<close>: an item satisfying \<open>E\<close> given as
  first argument always compares below, and one given as second argument to an item that
  does not satisfy \<open>E\<close> never compares above.
\<close>

definition exactsFirst :: "('a \<Rightarrow> bool) \<Rightarrow> 'a list \<Rightarrow> bool" where
  "exactsFirst E xs = (\<exists>ys zs. xs = ys @ zs \<and> list_all E ys \<and> list_all (\<lambda>x. \<not> E x) zs)"

definition exactsLast :: "('a \<Rightarrow> bool) \<Rightarrow> 'a list \<Rightarrow> bool" where
  "exactsLast E xs = (\<exists>ys zs. xs = ys @ zs \<and> list_all (\<lambda>x. \<not> E x) ys \<and> list_all E zs)"

definition exactWins :: "('a \<Rightarrow> bool) \<Rightarrow> ('a \<Rightarrow> 'a \<Rightarrow> int) \<Rightarrow> bool" where
  "exactWins E cmp = (\<forall>a b. (E a \<longrightarrow> cmp a b < 0) \<and> (\<not> E a \<and> E b \<longrightarrow> \<not> cmp a b < 0))"

section \<open>Sample data\<close>

text \<open>Concrete inputs on which the theorems below are run.\<close>

definition parseTable :: "string \<Rightarrow> jsDate option" where
  "parseTable = map_of
     [(''2015-06-01'', \<lparr>year = 2015, month = 5, day = 1, msOfDay = 0\<rparr>),
      (''2023-03-01'', \<lparr>year = 2023, month = 2, day = 1, msOfDay = 0\<rparr>),
      (''2023-09-15'', \<lparr>year = 2023, month = 8, day = 15, msOfDay = 0\<rparr>),
      (''2023-09-18'', \<lparr>year = 2023, month = 8, day = 18, msOfDay = 0\<rparr>),
      (''2023-09-19'', \<lparr>year = 2023, month = 8, day = 19, msOfDay = 0\<rparr>)]"

definition sampleHistory :: "StockHistoryData list" where
  "sampleHistory =
     [\<lparr>date = ''2015-06-01'', price = 10\<rparr>, \<lparr>date = ''2023-03-01'', price = 20\<rparr>,
      \<lparr>date = ''2023-09-15'', price = 30\<rparr>]"

text \<open>Noon of 29 February 2024.\<close>

definition leapNoon :: jsDate where
  "leapNoon = \<lparr>year = 2024, month = 1, day = 29, msOfDay = 43200000\<rparr>"

definition samplePrediction :: PredictionData where
  "samplePrediction =
     \<lparr>dates = [''2023-09-18'', ''2023-09-19''], predictions = [31, 32],
      upper_bound = [33, 35], lower_bound = [29, 28],
      last_actual = 30, last_actual_date = ''2023-09-15''\<rparr>"

text \<open>
  The pattern \<^verbatim>\<open>'MMM dd, yyyy'\<close> of date-fns, for the years 0 to 9999: the abbreviated
  month, the day in two digits and the year in four.
\<close>

definition monthName :: "nat \<Rightarrow> string" where
  "monthName m =
     [''Jan'', ''Feb'', ''Mar'', ''Apr'', ''May'', ''Jun'',
      ''Jul'', ''Aug'', ''Sep'', ''Oct'', ''Nov'', ''Dec''] ! m"

definition digitChar :: "nat \<Rightarrow> char" where
  "digitChar n = ''0123456789'' ! n"

definition twoDigits :: "nat \<Rightarrow> string" where
  "twoDigits n = [digitChar (n div 10 mod 10), digitChar (n mod 10)]"

definition sampleFmt :: "jsDate \<Rightarrow> string" where
  "sampleFmt d =
     monthName (month d) @ '' '' @ twoDigits (day d) @ '', ''
     @ twoDigits (nat (year d) div 100) @ twoDigits (nat (year d))"

text \<open>A history whose second date is not a date.\<close>

definition brokenHistory :: "StockHistoryData list" where
  "brokenHistory = [\<lparr>date = ''2015-06-01'', price = 10\<rparr>, \<lparr>date = ''n/a'', price = 20\<rparr>]"



definition sampleView :: component where
  "sampleView = (idle ZAll)\<lparr>historyData := sampleHistory, predictionData := Some samplePrediction\<rparr>"

definition apple1 :: StockSuggestion where
  "apple1 = \<lparr>symbol = ''AAPL'', name = ''Apple Inc.'', exchange = ''NASDAQ''\<rparr>"

definition apple2 :: StockSuggestion where
  "apple2 = \<lparr>symbol = ''AAPL'', name = ''Apple Inc. CDR'', exchange = ''NEO''\<rparr>"

definition aaplu :: StockSuggestion where
  "aaplu = \<lparr>symbol = ''AAPLU'', name = ''Direxion Daily AAPL Bull'', exchange = ''NASDAQ''\<rparr>"

definition xaapl :: StockSuggestion where
  "xaapl = \<lparr>symbol = ''XAAPL'', name = ''Sample Fund'', exchange = ''NYSE''\<rparr>"

section \<open>Properties of the rounding\<close>

lemma roundHalfEven_int: "roundHalfEven (of_int n) = n"
  by (simp add: roundHalfEven_def)



lemma floor_log2_less:
  assumes "x \<noteq> 0" and "\<bar>x\<bar> < 2 ^ n"
  shows "\<lfloor>log 2 \<bar>x\<bar>\<rfloor> < int n"
proof -
  have pos: "0 < \<bar>x\<bar>" using assms(1) by simp
  have "log 2 \<bar>x\<bar> < log 2 (2 ^ n)" using pos assms(2) by (simp del: log_pow_cancel)
  then have "log 2 \<bar>x\<bar> < real n" by simp
  then show ?thesis by (simp add: floor_less_iff)
qed

lemma ulpOf_exponent:
  assumes "max \<lfloor>log 2 \<bar>x\<bar>\<rfloor> (- 1022) - 52 = - int k"
  shows "ulpOf x = 1 / 2 ^ k"
proof -
  have "ulpOf x = 2 powr (- real k)" unfolding ulpOf_def assms by simp
  also have "\<dots> = 1 / 2 ^ k" by (simp add: powr_minus powr_realpow inverse_eq_divide)
  finally show ?thesis .
qed



text \<open>An integer below \<open>2 ^ 53\<close> is a double.\<close>

lemma roundDouble_int:
  assumes "n \<noteq> 0" and "\<bar>n\<bar> < 2 ^ 53"
  shows "roundDouble (of_int n) = of_int n"
proof -
  have x0: "real_of_int n \<noteq> 0" using assms(1) by simp
  have "\<bar>real_of_int n\<bar> < 2 ^ 53"
    using assms(2) by (metis of_int_abs of_int_less_numeral_power_cancel_iff)
  then have e1: "\<lfloor>log 2 \<bar>real_of_int n\<bar>\<rfloor> < 53"
    using floor_log2_less [OF x0, of 53] by simp
  have "1 \<le> \<bar>n\<bar>" using assms(1) by simp
  then have "1 \<le> \<bar>real_of_int n\<bar>" by (metis of_int_abs of_int_1_le_iff)
  then have "0 \<le> log 2 \<bar>real_of_int n\<bar>" by simp
  then have e0: "0 \<le> \<lfloor>log 2 \<bar>real_of_int n\<bar>\<rfloor>" by simp
  define k where "k = nat (52 - \<lfloor>log 2 \<bar>real_of_int n\<bar>\<rfloor>)"
  have "max \<lfloor>log 2 \<bar>real_of_int n\<bar>\<rfloor> (- 1022) - 52 = - int k"
    using e0 e1 by (simp add: k_def)
  then have u: "ulpOf (of_int n) = 1 / 2 ^ k" by (rule ulpOf_exponent)
  have "real_of_int n / ulpOf (of_int n) = of_int (n * 2 ^ k)" by (simp add: u)
  then have "roundHalfEven (real_of_int n / ulpOf (of_int n)) = n * 2 ^ k"
    by (simp only: roundHalfEven_int)
  then show ?thesis using x0 by (simp add: roundDouble_def u)
qed


lemma roundDouble_samples:
  "roundDouble 60 = 60" "roundDouble 65 = 65" "roundDouble 120 = 120"
  using roundDouble_int [of 60] roundDouble_int [of 65] roundDouble_int [of 120] by simp_all




section \<open>Properties of the pinch gesture\<close>



lemma touchDistance_same: "touchDistance p p = 0"
  by (simp add: touchDistance_def hypot_def)

lemma touchDistance_vertical: "0 \<le> b \<Longrightarrow> touchDistance (0, 0) (0, b) = b"
  by (simp add: touchDistance_def hypot_def)


lemma move_ignored:
  "\<not> isZooming r \<or> touchStartDistance r = None \<or> touchStartDistance r = Some 0 \<Longrightarrow>
   handleTouchMove r s ts = s"
  by (cases "(r, s, ts)" rule: handleTouchMove.cases) (auto simp: truthy_def)





text \<open>
  Claim C7, as stated, fails when the two contact points of the start coincide: the
  reference distance is then 0, which the move handler takes for no reference, and the
  two moves (to distance 60, then to 120 or again to 60) leave the window at all.
\<close>

theorem pinch_out_coincident_start:
  "zoomLevel (pinch (idle ZAll) [(0, 0), (0, 0)] [(0, 0), (0, 60)] [(0, 0), (0, 120)]) = ZAll
   \<and> zoomLevel (pinch (idle ZAll) [(5, 7), (5, 7)] [(5, 7), (5, 67)] [(5, 7), (5, 67)]) = ZAll"
  by (simp add: pinch_def moveRendered_def handleTouchEnd_def idle_def truthy_def
      touchDistance_same)

text \<open>
  Claim C7, amended. From an idle state, a two-point start at a distance \<open>d > 0\<close>, a move
  to \<open>d + 60\<close>, a move to \<open>d + 120\<close> and the end of contact: from window 1y the window is
  1y after the first move and at the end; from window all it is 10y after the first move
  and 5y at the end. The gesture ends idle, with no reference distance. The windows at
  the end are the same when the second move is handled before the re-render that follows
  the first.
\<close>

theorem pinch_out_twice:
  assumes "\<not> isZooming s" and "touchStartDistance s = None"
    and "touchDistance a0 a1 = d" and "0 < d"
    and "touchDistance b0 b1 = d + 60" and "touchDistance c0 c1 = d + 60 + 60"
  shows "(zoomLevel s = Z1y \<longrightarrow>
            zoomLevel (moveRendered (handleTouchStart s [a0, a1]) [b0, b1]) = Z1y
          \<and> zoomLevel (pinch s [a0, a1] [b0, b1] [c0, c1]) = Z1y
          \<and> zoomLevel (pinchBatched s [a0, a1] [b0, b1] [c0, c1]) = Z1y)
       \<and> (zoomLevel s = ZAll \<longrightarrow>
            zoomLevel (moveRendered (handleTouchStart s [a0, a1]) [b0, b1]) = Z10y
          \<and> zoomLevel (pinch s [a0, a1] [b0, b1] [c0, c1]) = Z5y
          \<and> zoomLevel (pinchBatched s [a0, a1] [b0, b1] [c0, c1]) = Z5y)
       \<and> \<not> isZooming (pinch s [a0, a1] [b0, b1] [c0, c1])
       \<and> touchStartDistance (pinch s [a0, a1] [b0, b1] [c0, c1]) = None"
  using assms
  by (simp add: pinch_def pinchBatched_def moveRendered_def handleTouchEnd_def truthy_def
      ZOOM_SENSITIVITY_def Let_def roundDouble_samples)

theorem pinch_out_twice_witness:
  "zoomLevel (pinch (idle ZAll) [(0, 0), (0, 10)] [(0, 0), (0, 70)] [(0, 0), (0, 130)]) = Z5y
   \<and> zoomLevel (pinch (idle Z1y) [(0, 0), (0, 10)] [(0, 0), (0, 70)] [(0, 0), (0, 130)]) = Z1y
   \<and> zoomLevel (pinchBatched (idle ZAll) [(0, 0), (0, 10)] [(0, 0), (0, 70)] [(0, 0), (0, 130)])
       = Z5y"
  using pinch_out_twice [of "idle ZAll" "(0, 0)" "(0, 10)" 10 "(0, 0)" "(0, 70)" "(0, 0)" "(0, 130)"]
    pinch_out_twice [of "idle Z1y" "(0, 0)" "(0, 10)" 10 "(0, 0)" "(0, 70)" "(0, 0)" "(0, 130)"]
  by (simp add: idle_def touchDistance_vertical)

text \<open>
  Claim C10. After a two-point start whose contact points coincide, the reference distance
  is 0, and any sequence of move events (whatever their touches) leaves the window and
  the reference distance as they are. This holds when every move is handled after a
  re-render, and also when moves are handled by older closures, as long as those hold
  no reference or the reference 0 (the renders before and after this start).
\<close>

theorem coincident_start_moves_ignored:
  "touchStartDistance (handleTouchStart s [p, p]) = Some 0
   \<and> zoomLevel (foldl moveRendered (handleTouchStart s [p, p]) moves) = zoomLevel s
   \<and> touchStartDistance (foldl moveRendered (handleTouchStart s [p, p]) moves) = Some 0
   \<and> ((\<forall>m \<in> set ms. touchStartDistance (fst m) = None \<or> touchStartDistance (fst m) = Some 0)
        \<longrightarrow> movesWith (handleTouchStart s [p, p]) ms = handleTouchStart s [p, p])"
proof -
  have st: "touchStartDistance (handleTouchStart s [p, p]) = Some 0"
    "zoomLevel (handleTouchStart s [p, p]) = zoomLevel s"
    by (simp_all add: touchDistance_same)
  have "foldl moveRendered u moves = u" if "touchStartDistance u = Some 0" for u
    using that by (induction moves) (simp_all add: moveRendered_def move_ignored)
  then have rendered: "foldl moveRendered (handleTouchStart s [p, p]) moves
      = handleTouchStart s [p, p]"
    using st(1) by simp
  have stale: "movesWith u ms = u"
    if "\<forall>m \<in> set ms. touchStartDistance (fst m) = None \<or> touchStartDistance (fst m) = Some 0"
    for u
    using that unfolding movesWith_def
    by (induction ms arbitrary: u) (simp_all add: move_ignored)
  show ?thesis using st rendered stale by simp
qed

theorem coincident_start_moves_ignored_witness:
  "movesWith (handleTouchStart (idle Z5y) [(3, 4), (3, 4)])
     [(idle Z5y, [(0, 0), (0, 100)]),
      (handleTouchStart (idle Z5y) [(3, 4), (3, 4)], [(0, 0), (0, 200)])]
   = handleTouchStart (idle Z5y) [(3, 4), (3, 4)]"
  using coincident_start_moves_ignored [of "idle Z5y" "(3, 4)" "[]"
      "[(idle Z5y, [(0, 0), (0, 100)]),
        (handleTouchStart (idle Z5y) [(3, 4), (3, 4)], [(0, 0), (0, 200)])]"]
  by (simp add: idle_def touchDistance_same)

section \<open>Properties of the time window filter\<close>

lemma filtered_window:
  "getFilteredHistoryData parseDate now cutoffDate s =
     (if zoomLevel s = ZAll then historyData s
      else filter (afterCutoff parseDate
                     (setFullYear cutoffDate (year now - windowYears (zoomLevel s))))
             (historyData s))"
  by (cases "zoomLevel s"; cases "historyData s")
     (simp_all add: getFilteredHistoryData_def getFullYear_def)

lemma yearsBefore_year: "year (yearsBefore now n) = year now - n"
  by (simp add: yearsBefore_def setFullYear_def)

lemma yearsBefore_time: "msOfDay (yearsBefore now n) = msOfDay now"
  by (simp add: yearsBefore_def setFullYear_def)

text \<open>
  Claim C2. With both clock readings equal to \<open>now\<close>: for the window all the filter
  returns the history \<open>h\<close> itself; for the windows 10y, 5y and 1y it returns exactly the
  items of \<open>h\<close>, in their order, whose date is at or after \<open>now\<close> moved back by 10, 5
  and 1 calendar years; the result is always a subsequence of \<open>h\<close>; and the empty history
  gives the empty list for every window and clock.
\<close>

theorem filter_by_window:
  "getFilteredHistoryData parseDate now now (s\<lparr>historyData := h, zoomLevel := z\<rparr>) =
     (if z = ZAll then h
      else filter (\<lambda>item. case parseDate (date item) of
                            None \<Rightarrow> False
                          | Some d \<Rightarrow> dateGe d (yearsBefore now (windowYears z))) h)
   \<and> subseq (getFilteredHistoryData parseDate now now (s\<lparr>historyData := h, zoomLevel := z\<rparr>)) h
   \<and> getFilteredHistoryData parseDate now cutoffDate (s\<lparr>historyData := []\<rparr>) = []"
proof -
  have a: "getFilteredHistoryData parseDate now now (s\<lparr>historyData := h, zoomLevel := z\<rparr>) =
     (if z = ZAll then h
      else filter (\<lambda>item. case parseDate (date item) of
                            None \<Rightarrow> False
                          | Some d \<Rightarrow> dateGe d (yearsBefore now (windowYears z))) h)"
    unfolding yearsBefore_def by (simp add: filtered_window afterCutoff_def [abs_def])
  have b: "subseq (getFilteredHistoryData parseDate now now (s\<lparr>historyData := h, zoomLevel := z\<rparr>)) h"
    unfolding a by simp
  have c: "getFilteredHistoryData parseDate now cutoffDate (s\<lparr>historyData := []\<rparr>) = []"
    by (simp add: getFilteredHistoryData_def)
  show ?thesis using a b c by blast
qed

text \<open>
  On 29 February 2024 at noon the one-year cutoff is 1 March 2023 at noon: the item of
  1 March 2023 (midnight) is dropped, the item of September 2023 is kept. Ten years back
  keeps all three items.
\<close>

theorem filter_by_window_witness:
  "getFilteredHistoryData parseTable leapNoon leapNoon
       (idle Z1y\<lparr>historyData := sampleHistory, zoomLevel := Z1y\<rparr>)
     = [\<lparr>date = ''2023-09-15'', price = 30\<rparr>]
   \<and> getFilteredHistoryData parseTable leapNoon leapNoon
       (idle Z1y\<lparr>historyData := sampleHistory, zoomLevel := Z10y\<rparr>)
     = sampleHistory
   \<and> getFilteredHistoryData parseTable leapNoon leapNoon
       (idle Z1y\<lparr>historyData := sampleHistory, zoomLevel := ZAll\<rparr>)
     = sampleHistory"
  using filter_by_window [where parseDate = parseTable and now = leapNoon and s = "idle Z1y"
        and h = sampleHistory and z = Z1y and cutoffDate = leapNoon]
    filter_by_window [where parseDate = parseTable and now = leapNoon and s = "idle Z1y"
        and h = sampleHistory and z = Z10y and cutoffDate = leapNoon]
    filter_by_window [where parseDate = parseTable and now = leapNoon and s = "idle Z1y"
        and h = sampleHistory and z = ZAll and cutoffDate = leapNoon]
  by (simp add: parseTable_def sampleHistory_def leapNoon_def yearsBefore_def setFullYear_def
      leapYear_def dateGe_def)

section \<open>Properties of the chart data\<close>

lemma filtered_frame:
  "getFilteredHistoryData parseDate now cutoffDate (s\<lparr>predictionData := x\<rparr>)
   = getFilteredHistoryData parseDate now cutoffDate s"
  by (simp add: filtered_window)

lemma formatAll_parsed:
  "datesParse parseDate h \<Longrightarrow>
   formatAll parseDate fmt h = Inr (map (\<lambda>item. fmt (the (parseDate (date item)))) h)"
  by (induction h) (auto simp: datesParse_def)

lemma formatAll_unparsed:
  "\<not> datesParse parseDate h \<Longrightarrow> formatAll parseDate fmt h = Inl RangeError"
  by (induction h) (auto simp: datesParse_def split: option.splits sum.splits)

text \<open>A history with a date that does not parse leaves \<^verbatim>\<open>getChartData\<close> without a result.\<close>

lemma chart_unparsed_raises:
  "\<not> datesParse parseDate (getFilteredHistoryData parseDate now cutoffDate s) \<Longrightarrow>
   getChartData fmt parseDate now cutoffDate s = Inl RangeError"
  by (simp add: getChartData_def Let_def formatAll_unparsed)

lemma chart_parsed:
  assumes "datesParse parseDate (getFilteredHistoryData parseDate now cutoffDate s)"
  shows "getChartData fmt parseDate now cutoffDate s =
     (let h = getFilteredHistoryData parseDate now cutoffDate s;
          historical = \<lparr>label = Some ''Historical Price'',
                        data = map (\<lambda>item. Some (price item)) h\<rparr>
      in Inr \<lparr>labels = map (\<lambda>item. fmt (the (parseDate (date item)))) h
                  @ (case predictionData s of None \<Rightarrow> [] | Some p \<Rightarrow> dates p),
              datasets =
                (case predictionData s of
                   None \<Rightarrow> [historical]
                 | Some p \<Rightarrow>
                     [historical,
                      \<lparr>label = Some ''Predicted Price'',
                        data = padded (length h) (predictions p)\<rparr>,
                      \<lparr>label = Some ''Confidence Interval'',
                        data = padded (length h) (upper_bound p)\<rparr>,
                      \<lparr>label = None, data = padded (length h) (lower_bound p)\<rparr>])\<rparr>)"
  by (simp add: getChartData_def Let_def formatAll_parsed [OF assms] split: option.splits)

lemma padded_length: "length (padded n xs) = n + length xs"
  by (simp add: padded_def)

lemma padded_take: "take n (padded n xs) = replicate n None"
  by (simp add: padded_def)

lemma padded_drop: "drop n (padded n xs) = map Some xs"
  by (simp add: padded_def)

lemma sample_dates_parse:
  "datesParse parseTable (getFilteredHistoryData parseTable leapNoon leapNoon sampleView)"
  by (simp add: datesParse_def sampleView_def idle_def getFilteredHistoryData_def
      sampleHistory_def parseTable_def)

text \<open>
  Claim C1. Let \<open>h\<close> be the filtered history, all of whose dates parse (they are calendar
  dates), and \<open>p\<close> a prediction whose four sequences have equal length. With the
  prediction present \<^verbatim>\<open>getChartData\<close> returns a chart with exactly four datasets: the
  first holds the prices of \<open>h\<close> and has length \<open>length h\<close>; each of the other three has
  length \<open>length h + length (dates p)\<close>, starts with \<open>length h\<close> null entries and goes on
  with the predictions, the upper bounds and the lower bounds. With the prediction absent
  it returns a chart with exactly one dataset.
\<close>

theorem chart_datasets_aligned:
  "(datesParse parseDate (getFilteredHistoryData parseDate now cutoffDate s)
      \<and> length (predictions p) = length (dates p) \<and> length (upper_bound p) = length (dates p)
      \<and> length (lower_bound p) = length (dates p) \<longrightarrow>
    (\<exists>cd. getChartData fmt parseDate now cutoffDate (s\<lparr>predictionData := Some p\<rparr>) = Inr cd
      \<and> (let h = getFilteredHistoryData parseDate now cutoffDate s; ds = datasets cd
         in length ds = 4
          \<and> data (ds ! 0) = map (\<lambda>item. Some (price item)) h
          \<and> length (data (ds ! 0)) = length h
          \<and> list_all (\<lambda>d. length (data d) = length h + length (dates p)
                           \<and> take (length h) (data d) = replicate (length h) None) (tl ds)
          \<and> map (\<lambda>d. drop (length h) (data d)) (tl ds) =
              [map Some (predictions p), map Some (upper_bound p),
               map Some (lower_bound p)])))
   \<and> (datesParse parseDate (getFilteredHistoryData parseDate now cutoffDate s) \<longrightarrow>
       (\<exists>cd. getChartData fmt parseDate now cutoffDate (s\<lparr>predictionData := None\<rparr>) = Inr cd
         \<and> length (datasets cd) = 1))"
proof (intro conjI impI)
  define h where "h = getFilteredHistoryData parseDate now cutoffDate s"
  assume a: "datesParse parseDate (getFilteredHistoryData parseDate now cutoffDate s)
      \<and> length (predictions p) = length (dates p) \<and> length (upper_bound p) = length (dates p)
      \<and> length (lower_bound p) = length (dates p)"
  have dp: "datesParse parseDate
      (getFilteredHistoryData parseDate now cutoffDate (s\<lparr>predictionData := Some p\<rparr>))"
    using a by (simp add: filtered_frame)
  define cd where "cd =
      \<lparr>labels = map (\<lambda>item. fmt (the (parseDate (date item)))) h @ dates p,
       datasets =
         [\<lparr>label = Some ''Historical Price'', data = map (\<lambda>item. Some (price item)) h\<rparr>,
          \<lparr>label = Some ''Predicted Price'', data = padded (length h) (predictions p)\<rparr>,
          \<lparr>label = Some ''Confidence Interval'', data = padded (length h) (upper_bound p)\<rparr>,
          \<lparr>label = None, data = padded (length h) (lower_bound p)\<rparr>]\<rparr>"
  have r: "getChartData fmt parseDate now cutoffDate (s\<lparr>predictionData := Some p\<rparr>) = Inr cd"
    unfolding chart_parsed [OF dp] cd_def h_def by (simp add: filtered_frame Let_def)
  have "length (datasets cd) = 4
      \<and> data (datasets cd ! 0) = map (\<lambda>item. Some (price item)) h
      \<and> length (data (datasets cd ! 0)) = length h
      \<and> list_all (\<lambda>d. length (data d) = length h + length (dates p)
                       \<and> take (length h) (data d) = replicate (length h) None)
           (tl (datasets cd))
      \<and> map (\<lambda>d. drop (length h) (data d)) (tl (datasets cd)) =
          [map Some (predictions p), map Some (upper_bound p), map Some (lower_bound p)]"
    using a by (simp add: cd_def padded_length padded_take padded_drop)
  then have "let h = getFilteredHistoryData parseDate now cutoffDate s; ds = datasets cd
         in length ds = 4
          \<and> data (ds ! 0) = map (\<lambda>item. Some (price item)) h
          \<and> length (data (ds ! 0)) = length h
          \<and> list_all (\<lambda>d. length (data d) = length h + length (dates p)
                           \<and> take (length h) (data d) = replicate (length h) None) (tl ds)
          \<and> map (\<lambda>d. drop (length h) (data d)) (tl ds) =
              [map Some (predictions p), map Some (upper_bound p),
               map Some (lower_bound p)]"
    unfolding Let_def h_def .
  then show "\<exists>cd. getChartData fmt parseDate now cutoffDate (s\<lparr>predictionData := Some p\<rparr>) = Inr cd
      \<and> (let h = getFilteredHistoryData parseDate now cutoffDate s; ds = datasets cd
         in length ds = 4
          \<and> data (ds ! 0) = map (\<lambda>item. Some (price item)) h
          \<and> length (data (ds ! 0)) = length h
          \<and> list_all (\<lambda>d. length (data d) = length h + length (dates p)
                           \<and> take (length h) (data d) = replicate (length h) None) (tl ds)
          \<and> map (\<lambda>d. drop (length h) (data d)) (tl ds) =
              [map Some (predictions p), map Some (upper_bound p),
               map Some (lower_bound p)])"
    using r by blast
next
  assume a: "datesParse parseDate (getFilteredHistoryData parseDate now cutoffDate s)"
  have dp: "datesParse parseDate
      (getFilteredHistoryData parseDate now cutoffDate (s\<lparr>predictionData := None\<rparr>))"
    using a by (simp add: filtered_frame)
  show "\<exists>cd. getChartData fmt parseDate now cutoffDate (s\<lparr>predictionData := None\<rparr>) = Inr cd
         \<and> length (datasets cd) = 1"
    unfolding chart_parsed [OF dp] by (simp add: Let_def)
qed

theorem chart_datasets_aligned_witness:
  "(\<exists>cd. getChartData sampleFmt parseTable leapNoon leapNoon sampleView = Inr cd
     \<and> datasets cd =
        [\<lparr>label = Some ''Historical Price'', data = [Some 10, Some 20, Some 30]\<rparr>,
         \<lparr>label = Some ''Predicted Price'', data = [None, None, None, Some 31, Some 32]\<rparr>,
         \<lparr>label = Some ''Confidence Interval'', data = [None, None, None, Some 33, Some 35]\<rparr>,
         \<lparr>label = None, data = [None, None, None, Some 29, Some 28]\<rparr>])
   \<and> (\<exists>cd. getChartData sampleFmt parseTable leapNoon leapNoon
              (sampleView\<lparr>predictionData := None\<rparr>) = Inr cd
     \<and> length (datasets cd) = 1)"
proof -
  have eq: "sampleView\<lparr>predictionData := Some samplePrediction\<rparr> = sampleView"
    by (simp add: sampleView_def)
  have h: "getFilteredHistoryData parseTable leapNoon leapNoon sampleView = sampleHistory"
    by (simp add: sampleView_def idle_def getFilteredHistoryData_def sampleHistory_def)
  note t = chart_datasets_aligned [where p = samplePrediction and s = sampleView
      and parseDate = parseTable and now = leapNoon and cutoffDate = leapNoon
      and fmt = sampleFmt]
  have len: "length (predictions samplePrediction) = length (dates samplePrediction)
      \<and> length (upper_bound samplePrediction) = length (dates samplePrediction)
      \<and> length (lower_bound samplePrediction) = length (dates samplePrediction)"
    by (simp add: samplePrediction_def)
  obtain cd where cd: "getChartData sampleFmt parseTable leapNoon leapNoon sampleView = Inr cd"
    and ds: "length (datasets cd) = 4"
      "data (datasets cd ! 0) = map (\<lambda>item. Some (price item)) sampleHistory"
    using t sample_dates_parse len unfolding eq h Let_def by blast
  have full: "getChartData sampleFmt parseTable leapNoon leapNoon sampleView =
      Inr \<lparr>labels = map (\<lambda>item. sampleFmt (the (parseTable (date item)))) sampleHistory
                    @ dates samplePrediction,
           datasets =
        [\<lparr>label = Some ''Historical Price'', data = [Some 10, Some 20, Some 30]\<rparr>,
         \<lparr>label = Some ''Predicted Price'', data = [None, None, None, Some 31, Some 32]\<rparr>,
         \<lparr>label = Some ''Confidence Interval'', data = [None, None, None, Some 33, Some 35]\<rparr>,
         \<lparr>label = None, data = [None, None, None, Some 29, Some 28]\<rparr>]\<rparr>"
    unfolding chart_parsed [OF sample_dates_parse] h
    by (simp add: sampleView_def samplePrediction_def sampleHistory_def padded_def)
  have one: "\<exists>cd. getChartData sampleFmt parseTable leapNoon leapNoon
              (sampleView\<lparr>predictionData := None\<rparr>) = Inr cd \<and> length (datasets cd) = 1"
    using t sample_dates_parse by blast
  show ?thesis using full one cd by simp
qed

text \<open>
  Claim C6 evaluated on the sample view: the labels of the history are formatted, the
  dates of the prediction are appended as the strings the backend sent, and so the labels
  differ from the formatted dates of both segments.
\<close>

theorem chart_labels_prediction_unformatted:
  "labelsOf (getChartData sampleFmt parseTable leapNoon leapNoon sampleView) =
     Inr [''Jun 01, 2015'', ''Mar 01, 2023'', ''Sep 15, 2023'', ''2023-09-18'', ''2023-09-19'']
   \<and> labelsOf (getChartData sampleFmt parseTable leapNoon leapNoon sampleView) \<noteq>
       Inr (map (\<lambda>d. sampleFmt (the (parseTable d)))
              (map date sampleHistory @ dates samplePrediction))
   \<and> map (\<lambda>d. sampleFmt (the (parseTable d))) (dates samplePrediction)
       = [''Sep 18, 2023'', ''Sep 19, 2023'']"
proof -
  have h: "getFilteredHistoryData parseTable leapNoon leapNoon sampleView = sampleHistory"
    by (simp add: sampleView_def idle_def getFilteredHistoryData_def sampleHistory_def)
  have f: "map (\<lambda>d. sampleFmt (the (parseTable d)))
             [''2015-06-01'', ''2023-03-01'', ''2023-09-15'', ''2023-09-18'', ''2023-09-19'']
           = [''Jun 01, 2015'', ''Mar 01, 2023'', ''Sep 15, 2023'',
              ''Sep 18, 2023'', ''Sep 19, 2023'']"
    by (simp add: sampleFmt_def twoDigits_def digitChar_def monthName_def parseTable_def)
  have l: "labelsOf (getChartData sampleFmt parseTable leapNoon leapNoon sampleView) =
     Inr (map (\<lambda>d. sampleFmt (the (parseTable d))) (map date sampleHistory)
          @ dates samplePrediction)"
    unfolding chart_parsed [OF sample_dates_parse] h
    by (simp add: labelsOf_def sampleView_def comp_def)
  show ?thesis
    unfolding l using f by (simp add: sampleHistory_def samplePrediction_def)
qed

section \<open>Properties of the analysis summary\<close>

lemma everyFrom_nth: "everyFrom i p xs \<longleftrightarrow> (\<forall>k<length xs. p (xs ! k) (i + k))"
proof (induction xs arbitrary: i)
  case Nil
  show ?case by simp
next
  case (Cons x xs)
  show ?case
  proof
    assume a: "everyFrom i p (x # xs)"
    show "\<forall>k<length (x # xs). p ((x # xs) ! k) (i + k)"
    proof (intro allI impI)
      fix k assume k: "k < length (x # xs)"
      show "p ((x # xs) ! k) (i + k)"
      proof (cases k)
        case 0
        then show ?thesis using a by simp
      next
        case (Suc j)
        then have "p (xs ! j) (Suc i + j)" using a k Cons.IH [of "Suc i"] by simp
        then show ?thesis using Suc by simp
      qed
    qed
  next
    assume a: "\<forall>k<length (x # xs). p ((x # xs) ! k) (i + k)"
    have "p x i" using a by force
    moreover have "\<forall>k<length xs. p (xs ! k) (Suc i + k)"
    proof (intro allI impI)
      fix k assume "k < length xs"
      then have "p ((x # xs) ! Suc k) (i + Suc k)" using a by (metis Suc_less_eq length_Cons)
      then show "p (xs ! k) (Suc i + k)" by simp
    qed
    ultimately show "everyFrom i p (x # xs)" using Cons.IH [of "Suc i"] by simp
  qed
qed

lemma every_adjacent:
  assumes "transp R"
  shows "every (\<lambda>price index. index = 0 \<or> R (ps ! (index - 1)) price) ps \<longleftrightarrow> sorted_wrt R ps"
proof -
  have "every (\<lambda>price index. index = 0 \<or> R (ps ! (index - 1)) price) ps
        \<longleftrightarrow> (\<forall>k<length ps. k = 0 \<or> R (ps ! (k - 1)) (ps ! k))"
    by (simp add: every_def everyFrom_nth)
  also have "\<dots> \<longleftrightarrow> (\<forall>i. Suc i < length ps \<longrightarrow> R (ps ! i) (ps ! Suc i))"
  proof
    assume a: "\<forall>k<length ps. k = 0 \<or> R (ps ! (k - 1)) (ps ! k)"
    show "\<forall>i. Suc i < length ps \<longrightarrow> R (ps ! i) (ps ! Suc i)"
    proof (intro allI impI)
      fix i assume "Suc i < length ps"
      then show "R (ps ! i) (ps ! Suc i)" using a [rule_format, of "Suc i"] by simp
    qed
  next
    assume a: "\<forall>i. Suc i < length ps \<longrightarrow> R (ps ! i) (ps ! Suc i)"
    show "\<forall>k<length ps. k = 0 \<or> R (ps ! (k - 1)) (ps ! k)"
    proof (intro allI impI)
      fix k assume k: "k < length ps"
      show "k = 0 \<or> R (ps ! (k - 1)) (ps ! k)"
      proof (cases k)
        case 0
        then show ?thesis by simp
      next
        case (Suc j)
        then show ?thesis using a [rule_format, of j] k by simp
      qed
    qed
  qed
  also have "\<dots> \<longleftrightarrow> sorted_wrt R ps"
    using sorted_wrt_iff_nth_Suc_transp [OF assms] by blast
  finally show ?thesis .
qed

lemma upward_iff:
  "every (\<lambda>price index. index = 0 \<or> price \<ge> ps ! (index - 1)) ps \<longleftrightarrow> nonDecreasing ps"
  unfolding nonDecreasing_def
  using every_adjacent [of "(\<le>)" ps] by (simp add: transp_on_def)

lemma downward_iff:
  "every (\<lambda>price index. index = 0 \<or> price \<le> ps ! (index - 1)) ps \<longleftrightarrow> nonIncreasing ps"
  unfolding nonIncreasing_def
  using every_adjacent [of "(\<ge>)" ps] by (simp add: transp_on_def)

lemma reduceAdd_nonempty: "xs \<noteq> [] \<Longrightarrow> \<exists>t. reduceAdd xs = Inr t"
  by (cases xs) (simp_all add: reduceAdd_def)

lemma std_nonempty:
  assumes "xs \<noteq> []"
  shows "\<exists>sd. std xs = Inr sd"
proof -
  obtain t where t: "reduceAdd xs = Inr t" using reduceAdd_nonempty [OF assms] by blast
  have "map (\<lambda>x. (x - t / real (length xs)) ^ 2) xs \<noteq> []" using assms by simp
  then obtain q where q: "reduceAdd (map (\<lambda>x. (x - t / real (length xs)) ^ 2) xs) = Inr q"
    using reduceAdd_nonempty by blast
  show ?thesis using t q by (simp add: std_def Let_def)
qed

lemma std_empty: "std [] = Inl TypeError"
  by (simp add: std_def reduceAdd_def)

text \<open>
  Claim C9, as stated, fails on the empty array: the non-decreasing test is vacuously
  true there, but \<^verbatim>\<open>Math.std\<close> reduces the empty array without an initial value, and
  \<^verbatim>\<open>getMarketFactors\<close> raises a TypeError instead of returning a trend.
\<close>

theorem market_factors_empty_raises:
  "every (\<lambda>price index. index = 0 \<or> price \<ge> [] ! (index - 1)) []
   \<and> getMarketFactors [] 100 = Inl TypeError"
  by (simp add: getMarketFactors_def std_empty every_def)

text \<open>
  Claim C9, amended. On every non-empty array of predictions \<^verbatim>\<open>getMarketFactors\<close>
  returns, and its trend is upward if the array is non-decreasing, downward if it is
  non-increasing and not non-decreasing, mixed otherwise; on a single-element array the
  trend is upward.
\<close>

theorem market_factors_trend:
  assumes "preds \<noteq> []"
  shows "\<exists>mf. getMarketFactors preds lastPrice = Inr mf
        \<and> trend mf = (if nonDecreasing preds then ''upward''
                       else if nonIncreasing preds then ''downward'' else ''mixed'')
        \<and> (length preds = 1 \<longrightarrow> trend mf = ''upward'')"
proof -
  obtain sd where sd: "std preds = Inr sd" using std_nonempty [OF assms] by blast
  have single: "length preds = 1 \<Longrightarrow> nonDecreasing preds"
    by (cases preds) (simp_all add: nonDecreasing_def)
  have eq: "getMarketFactors preds lastPrice =
      Inr \<lparr>trend = (if nonDecreasing preds then ''upward''
                      else if nonIncreasing preds then ''downward'' else ''mixed''),
           volatility = (if sd / lastPrice * 100 > 5 then ''High'' else ''Moderate to Low''),
           confidence = 100 - sd / lastPrice * 100 * 10\<rparr>"
    unfolding getMarketFactors_def Let_def upward_iff downward_iff sd by simp
  show ?thesis unfolding eq using single by simp
qed

theorem market_factors_trend_witness:
  "(\<exists>mf. getMarketFactors [1, 2, 2] 100 = Inr mf \<and> trend mf = ''upward'')
   \<and> (\<exists>mf. getMarketFactors [3, 2, 2] 100 = Inr mf \<and> trend mf = ''downward'')
   \<and> (\<exists>mf. getMarketFactors [1, 3, 2] 100 = Inr mf \<and> trend mf = ''mixed'')
   \<and> (\<exists>mf. getMarketFactors [7] 100 = Inr mf \<and> trend mf = ''upward'')"
  using market_factors_trend [of "[1, 2, 2]" 100] market_factors_trend [of "[3, 2, 2]" 100]
    market_factors_trend [of "[1, 3, 2]" 100] market_factors_trend [of "[7]" 100]
  by (simp add: nonDecreasing_def nonIncreasing_def)

section \<open>Properties of the three fetches\<close>

lemma news_frame:
  "isLoading (fetchNewsBegin symb s) = isLoading s
   \<and> isLoading (fetchNewsSettle symb r s) = isLoading s
   \<and> historyData (fetchNewsBegin symb s) = historyData s
   \<and> historyData (fetchNewsSettle symb r s) = historyData s
   \<and> predictionData (fetchNewsBegin symb s) = predictionData s
   \<and> predictionData (fetchNewsSettle symb r s) = predictionData s"
  by (cases r) (simp_all add: fetchNewsBegin_def fetchNewsSettle_def)

lemma history_frame:
  "loading (fetchHistoricalDataBegin symb s) = loading s
   \<and> loading (fetchHistoricalDataSettle symb r s) = loading s
   \<and> news (fetchHistoricalDataBegin symb s) = news s
   \<and> news (fetchHistoricalDataSettle symb r s) = news s
   \<and> predictionData (fetchHistoricalDataBegin symb s) = predictionData s
   \<and> predictionData (fetchHistoricalDataSettle symb r s) = predictionData s"
  by (cases r)
     (simp_all add: fetchHistoricalDataBegin_def fetchHistoricalDataSettle_def
        split: option.splits)

lemma predictions_frame:
  "loading (fetchPredictionsBegin symb s) = loading s
   \<and> loading (fetchPredictionsSettle symb r s) = loading s
   \<and> news (fetchPredictionsBegin symb s) = news s
   \<and> news (fetchPredictionsSettle symb r s) = news s
   \<and> historyData (fetchPredictionsBegin symb s) = historyData s
   \<and> historyData (fetchPredictionsSettle symb r s) = historyData s
   \<and> error (fetchPredictionsSettle symb r s) = error s"
  by (cases r) (simp_all add: fetchPredictionsBegin_def fetchPredictionsSettle_def)

text \<open>
  Claim C8, as stated, fails: the component has one \<^verbatim>\<open>error\<close> cell and the history
  and prediction fetches share \<^verbatim>\<open>isLoading\<close>. After a failed news fetch has stored its
  message, the start of the history fetch clears it; a malformed history response stores
  its message in the same cell; and a prediction fetch that settles while the history
  fetch is pending resets the loading flag the history fetch had set.
\<close>

theorem fetches_share_slots:
  "error (fetchNewsSettle ''AAPL'' (Rejected (Some ''offline''))
            (fetchNewsBegin ''AAPL'' (idle Z1y)))
     = Some ''offline''
   \<and> error (fetchHistoricalDataBegin ''AAPL''
        (fetchNewsSettle ''AAPL'' (Rejected (Some ''offline''))
           (fetchNewsBegin ''AAPL'' (idle Z1y))))
     = None
   \<and> error (fetchHistoricalDataSettle ''AAPL'' (Body None) (fetchNewsBegin ''AAPL'' (idle Z1y)))
     = Some ''Invalid data format received''
   \<and> isLoading (fetchHistoricalDataBegin ''AAPL'' (idle Z1y)) = True
   \<and> isLoading (fetchPredictionsSettle ''AAPL'' (Rejected None)
        (fetchHistoricalDataBegin ''AAPL'' (idle Z1y))) = False"
  by (simp add: idle_def fetchNewsBegin_def fetchNewsSettle_def fetchHistoricalDataBegin_def
      fetchHistoricalDataSettle_def fetchPredictionsSettle_def errMessage_def)

text \<open>
  Claim C8, amended. The news fetch has a loading flag of its own: no write of the news
  fetch, at its start or when it settles, changes \<^verbatim>\<open>isLoading\<close>, and no write of the
  history or prediction fetch changes \<^verbatim>\<open>loading\<close>. No fetch, at its start or when it
  settles, writes the data of another (\<^verbatim>\<open>news\<close>, \<^verbatim>\<open>historyData\<close>,
  \<^verbatim>\<open>predictionData\<close>). A prediction fetch that settles, failed or not, leaves the
  error cell as it is.
\<close>

theorem fetch_frames:
  "isLoading (fetchNewsBegin symb s) = isLoading s
   \<and> historyData (fetchNewsBegin symb s) = historyData s
   \<and> predictionData (fetchNewsBegin symb s) = predictionData s
   \<and> isLoading (fetchNewsSettle symb rn s) = isLoading s
   \<and> historyData (fetchNewsSettle symb rn s) = historyData s
   \<and> predictionData (fetchNewsSettle symb rn s) = predictionData s
   \<and> loading (fetchHistoricalDataBegin symb s) = loading s
   \<and> news (fetchHistoricalDataBegin symb s) = news s
   \<and> predictionData (fetchHistoricalDataBegin symb s) = predictionData s
   \<and> loading (fetchHistoricalDataSettle symb rh s) = loading s
   \<and> news (fetchHistoricalDataSettle symb rh s) = news s
   \<and> predictionData (fetchHistoricalDataSettle symb rh s) = predictionData s
   \<and> loading (fetchPredictionsBegin symb s) = loading s
   \<and> news (fetchPredictionsBegin symb s) = news s
   \<and> historyData (fetchPredictionsBegin symb s) = historyData s
   \<and> loading (fetchPredictionsSettle symb rp s) = loading s
   \<and> news (fetchPredictionsSettle symb rp s) = news s
   \<and> historyData (fetchPredictionsSettle symb rp s) = historyData s
   \<and> error (fetchPredictionsSettle symb rp s) = error s"
  using news_frame [of symb s rn] history_frame [of symb s rh] predictions_frame [of symb s rp]
  by simp

theorem fetch_frames_witness:
  "loading (fetchHistoricalDataSettle ''AAPL'' (Body None) (fetchNewsBegin ''AAPL'' (idle Z1y)))
     = True
   \<and> isLoading (fetchNewsSettle ''AAPL'' (Body None)
        (fetchHistoricalDataBegin ''AAPL'' (idle Z1y))) = True
   \<and> error (fetchPredictionsSettle ''AAPL'' (NotOk ''Bad Gateway'' None)
        (fetchNewsSettle ''AAPL'' (Rejected None) (idle Z1y)))
     = Some ''Failed to fetch news''"
  using fetch_frames [where symb = "''AAPL''" and s = "fetchNewsBegin ''AAPL'' (idle Z1y)"
      and rn = "Body None" and rh = "Body None" and rp = "Rejected None"]
    fetch_frames [where symb = "''AAPL''" and s = "fetchHistoricalDataBegin ''AAPL'' (idle Z1y)"
      and rn = "Body None" and rh = "Body None" and rp = "Rejected None"]
    fetch_frames [where symb = "''AAPL''"
      and s = "fetchNewsSettle ''AAPL'' (Rejected None) (idle Z1y)"
      and rn = "Body None" and rh = "Body None" and rp = "NotOk ''Bad Gateway'' None"]
  by (simp add: idle_def fetchNewsBegin_def fetchNewsSettle_def fetchHistoricalDataBegin_def
      errMessage_def)

section \<open>Properties of the suggestion ranking\<close>

declare binarySearch.simps [simp del]

lemma startsWith_includes: "startsWith s q \<Longrightarrow> includesStr s q"
  by (cases s) (simp_all add: startsWith_def)

text \<open>
  Between two items that are not exact matches the comparator is the sign of the
  difference of their ranks: it is 0 exactly when no rule separates them.
\<close>

lemma compare_by_class:
  assumes "symbol a \<noteq> toUpperCase query" and "symbol b \<noteq> toUpperCase query"
  shows "compareSuggestions query a b = sgn (int (rankClass query a) - int (rankClass query b))"
  using assms startsWith_includes [of "symbol a" "toUpperCase query"]
    startsWith_includes [of "symbol b" "toUpperCase query"]
  by (auto simp: compareSuggestions_def rankClass_def Let_def)

text \<open>An exact match given as first argument compares below whatever the second is.\<close>

lemma compare_exact_first:
  "symbol a = toUpperCase query \<Longrightarrow> compareSuggestions query a b = -1"
  by (simp add: compareSuggestions_def)

lemma compare_exactWins:
  "exactWins (\<lambda>x. symbol x = toUpperCase query) (compareSuggestions query)"
  by (simp add: exactWins_def compareSuggestions_def)

lemma exactsLast_rev:
  assumes "exactsLast E xs"
  shows "exactsFirst E (rev xs)"
proof -
  obtain ys zs where "xs = ys @ zs" "list_all (\<lambda>x. \<not> E x) ys" "list_all E zs"
    using assms unfolding exactsLast_def by blast
  then have "rev xs = rev zs @ rev ys \<and> list_all E (rev zs) \<and> list_all (\<lambda>x. \<not> E x) (rev ys)"
    by (simp add: list_all_iff)
  then show ?thesis unfolding exactsFirst_def by blast
qed

lemma exactsLast_Cons:
  assumes "exactsLast E xs" and "E x \<longrightarrow> list_all E xs"
  shows "exactsLast E (x # xs)"
proof (cases "E x")
  case True
  then have "x # xs = [] @ (x # xs) \<and> list_all (\<lambda>x. \<not> E x) [] \<and> list_all E (x # xs)"
    using assms(2) by simp
  then show ?thesis unfolding exactsLast_def by blast
next
  case False
  obtain ys zs where "xs = ys @ zs" "list_all (\<lambda>x. \<not> E x) ys" "list_all E zs"
    using assms(1) unfolding exactsLast_def by blast
  then have "x # xs = (x # ys) @ zs \<and> list_all (\<lambda>x. \<not> E x) (x # ys) \<and> list_all E zs"
    using False by simp
  then show ?thesis unfolding exactsLast_def by blast
qed

lemma exactsFirst_short:
  assumes "length xs \<le> 1"
  shows "exactsFirst E xs"
proof (cases xs)
  case Nil
  then show ?thesis by (simp add: exactsFirst_def)
next
  case (Cons x ys)
  then have xs: "xs = [x]" using assms by simp
  show ?thesis
  proof (cases "E x")
    case True
    then have "xs = [x] @ [] \<and> list_all E [x] \<and> list_all (\<lambda>x. \<not> E x) []" using xs by simp
    then show ?thesis unfolding exactsFirst_def by blast
  next
    case False
    then have "xs = [] @ [x] \<and> list_all E [] \<and> list_all (\<lambda>x. \<not> E x) [x]" using xs by simp
    then show ?thesis unfolding exactsFirst_def by blast
  qed
qed

lemma exactsFirst_hd:
  assumes "exactsFirst E xs" and "x \<in> set xs" and "E x"
  shows "xs \<noteq> [] \<and> E (hd xs)"
proof -
  obtain ys zs where xs: "xs = ys @ zs" and ys: "list_all E ys"
    and zs: "list_all (\<lambda>x. \<not> E x) zs"
    using assms(1) unfolding exactsFirst_def by blast
  have "x \<in> set ys" using assms(2,3) xs zs by (auto simp: list_all_iff)
  then have "ys \<noteq> []" by auto
  then have "hd xs = hd ys" "hd ys \<in> set ys" "xs \<noteq> []" using xs by simp_all
  then show ?thesis using ys by (simp add: list_all_iff)
qed

subsection \<open>The first run\<close>

lemma countRun_append: "countRun cmp d prev xs = (run, rest) \<Longrightarrow> xs = run @ rest"
  by (induction xs arbitrary: prev run rest)
     (auto simp: Let_def split: if_splits prod.splits)

lemma countRun_ascending:
  assumes "exactWins E cmp"
  shows "countRun cmp False prev xs = (run, rest) \<Longrightarrow> list_all (\<lambda>x. \<not> E x) run"
proof (induction xs arbitrary: prev run rest)
  case Nil
  then show ?case by simp
next
  case (Cons x xs)
  show ?case
  proof (cases "cmp x prev < 0")
    case True
    then show ?thesis using Cons.prems by (simp add: Let_def)
  next
    case False
    obtain r1 r2 where r: "countRun cmp False x xs = (r1, r2)"
      by (cases "countRun cmp False x xs")
    have run: "run = x # r1" using Cons.prems False r by (simp add: Let_def)
    have "\<not> E x" using False assms unfolding exactWins_def by blast
    then show ?thesis using run Cons.IH [OF r] by simp
  qed
qed

lemma countRun_descending:
  assumes "exactWins E cmp"
  shows "countRun cmp True prev xs = (run, rest) \<Longrightarrow>
         exactsLast E run \<and> (E prev \<longrightarrow> list_all E run)"
proof (induction xs arbitrary: prev run rest)
  case Nil
  then show ?case by (simp add: exactsLast_def)
next
  case (Cons x xs)
  show ?case
  proof (cases "cmp x prev \<ge> 0")
    case True
    then show ?thesis using Cons.prems by (simp add: Let_def exactsLast_def)
  next
    case False
    obtain r1 r2 where r: "countRun cmp True x xs = (r1, r2)"
      by (cases "countRun cmp True x xs")
    have run: "run = x # r1" using Cons.prems False r by (simp add: Let_def)
    have ih: "exactsLast E r1" "E x \<longrightarrow> list_all E r1" using Cons.IH [OF r] by simp_all
    have "cmp x prev < 0" using False by simp
    then have step: "E prev \<longrightarrow> E x" using assms unfolding exactWins_def by blast
    have "exactsLast E (x # r1)" by (rule exactsLast_Cons [OF ih])
    then show ?thesis using run ih(2) step by simp
  qed
qed

lemma countAndMakeRun_long:
  "countAndMakeRun cmp (a # b # ys) =
     (case countRun cmp (cmp b a < 0) b ys of
        (run, rest) \<Rightarrow> (if cmp b a < 0 then rev (a # b # run) else a # b # run, rest))"
  by (simp add: Let_def)

lemma countAndMakeRun_short: "length xs \<le> 1 \<Longrightarrow> countAndMakeRun cmp xs = (xs, [])"
  by (cases xs; cases "tl xs") auto

lemma countAndMakeRun_set:
  assumes h: "countAndMakeRun cmp xs = (run, rest)"
  shows "set run \<union> set rest = set xs"
proof (cases "length xs \<le> 1")
  case True
  then show ?thesis using h countAndMakeRun_short [OF True, of cmp] by simp
next
  case False
  then obtain a b ys where xs: "xs = a # b # ys"
    by (cases xs; cases "tl xs") auto
  obtain r1 r2 where r: "countRun cmp (cmp b a < 0) b ys = (r1, r2)"
    by (cases "countRun cmp (cmp b a < 0) b ys")
  have ys: "ys = r1 @ r2" by (rule countRun_append [OF r])
  have "set run = set (a # b # r1)" "rest = r2"
    using h r unfolding xs countAndMakeRun_long by (auto split: if_splits)
  then show ?thesis using xs ys by auto
qed

lemma countAndMakeRun_exactsFirst:
  assumes w: "exactWins E cmp" and h: "countAndMakeRun cmp xs = (run, rest)"
  shows "exactsFirst E run"
proof (cases "length xs \<le> 1")
  case True
  then have "run = xs" using h countAndMakeRun_short [OF True, of cmp] by simp
  then show ?thesis using True by (simp add: exactsFirst_short)
next
  case long: False
  then obtain a b ys where xs: "xs = a # b # ys"
    by (cases xs; cases "tl xs") auto
  obtain r1 r2 where r: "countRun cmp (cmp b a < 0) b ys = (r1, r2)"
    by (cases "countRun cmp (cmp b a < 0) b ys")
  show ?thesis
  proof (cases "cmp b a < 0")
    case True
    have run: "run = rev (a # b # r1)"
      using h r True unfolding xs countAndMakeRun_long by simp
    have d: "exactsLast E r1" "E b \<longrightarrow> list_all E r1"
      using countRun_descending [OF w, of b ys r1 r2] r True by simp_all
    have ab: "E a \<longrightarrow> E b" using True w unfolding exactWins_def by force
    have "exactsLast E (b # r1)" by (rule exactsLast_Cons [OF d])
    moreover have "E a \<longrightarrow> list_all E (b # r1)" using ab d(2) by simp
    ultimately have "exactsLast E (a # b # r1)" by (rule exactsLast_Cons)
    then show ?thesis unfolding run by (rule exactsLast_rev)
  next
    case False
    have run: "run = a # b # r1"
      using h r False unfolding xs countAndMakeRun_long by simp
    have nb: "\<not> E b" using False w unfolding exactWins_def by blast
    have nr: "list_all (\<lambda>x. \<not> E x) r1"
      using countRun_ascending [OF w, of b ys r1 r2] r False by simp
    show ?thesis
    proof (cases "E a")
      case True
      then have "run = [a] @ (b # r1) \<and> list_all E [a] \<and> list_all (\<lambda>x. \<not> E x) (b # r1)"
        using run nb nr by simp
      then show ?thesis unfolding exactsFirst_def by blast
    next
      case False
      then have "run = [] @ (a # b # r1) \<and> list_all E []
                 \<and> list_all (\<lambda>x. \<not> E x) (a # b # r1)"
        using run nb nr by simp
      then show ?thesis unfolding exactsFirst_def by blast
    qed
  qed
qed

subsection \<open>Binary insertion\<close>

lemma binarySearch_exact:
  "exactWins E cmp \<Longrightarrow> E pivot \<Longrightarrow> binarySearch cmp pivot xs left right = left"
proof (induction cmp pivot xs left right rule: binarySearch.induct)
  case (1 cmp pivot xs left right)
  show ?case
  proof (cases "left < right")
    case True
    have neg: "cmp pivot (xs ! (left + (right - left) div 2)) < 0"
      using "1.prems" unfolding exactWins_def by blast
    have "binarySearch cmp pivot xs left right
          = binarySearch cmp pivot xs left (left + (right - left) div 2)"
      using True neg by (subst binarySearch.simps) (simp add: Let_def)
    also have "\<dots> = left"
      using "1.IH"(1) [OF True refl neg "1.prems"] .
    finally show ?thesis .
  next
    case False
    then show ?thesis by (subst binarySearch.simps) simp
  qed
qed

lemma binarySearch_other:
  "exactWins E cmp \<Longrightarrow> \<not> E pivot \<Longrightarrow> \<forall>i<k. E (xs ! i) \<Longrightarrow> k \<le> right \<Longrightarrow>
   k \<le> binarySearch cmp pivot xs left right"
proof (induction cmp pivot xs left right rule: binarySearch.induct)
  case (1 cmp pivot xs left right)
  show ?case
  proof (cases "left < right")
    case True
    define mid where "mid = left + (right - left) div 2"
    show ?thesis
    proof (cases "cmp pivot (xs ! mid) < 0")
      case neg: True
      have "\<not> E (xs ! mid)" using neg "1.prems"(1,2) unfolding exactWins_def by blast
      then have km: "k \<le> mid" using "1.prems"(3) by (meson not_le)
      have "binarySearch cmp pivot xs left right = binarySearch cmp pivot xs left mid"
        using True neg unfolding mid_def by (subst binarySearch.simps) (simp add: Let_def)
      moreover have "k \<le> binarySearch cmp pivot xs left mid"
        by (rule "1.IH"(1) [OF True mid_def neg "1.prems"(1,2,3) km])
      ultimately show ?thesis by simp
    next
      case nonneg: False
      have "binarySearch cmp pivot xs left right = binarySearch cmp pivot xs (mid + 1) right"
        using True nonneg unfolding mid_def by (subst binarySearch.simps) (simp add: Let_def)
      moreover have "k \<le> binarySearch cmp pivot xs (mid + 1) right"
        by (rule "1.IH"(2) [OF True mid_def nonneg "1.prems"])
      ultimately show ?thesis by simp
    qed
  next
    case False
    then have "binarySearch cmp pivot xs left right = left" by (subst binarySearch.simps) simp
    then show ?thesis using False "1.prems"(4) by simp
  qed
qed

lemma binaryInsert_set: "set (binaryInsert cmp xs pivot) = insert pivot (set xs)"
proof -
  have "set (take n xs @ pivot # drop n xs) = insert pivot (set xs)" for n
  proof -
    have "set (take n xs @ pivot # drop n xs) = insert pivot (set (take n xs @ drop n xs))"
      by (simp only: set_append set_simps Un_insert_right)
    then show ?thesis by (simp only: append_take_drop_id)
  qed
  then show ?thesis by (simp add: binaryInsert_def Let_def)
qed

lemma binaryInsert_exactsFirst:
  assumes w: "exactWins E cmp" and f: "exactsFirst E xs"
  shows "exactsFirst E (binaryInsert cmp xs pivot)"
proof -
  obtain ys zs where xs: "xs = ys @ zs" and ys: "list_all E ys"
    and zs: "list_all (\<lambda>x. \<not> E x) zs"
    using f unfolding exactsFirst_def by blast
  show ?thesis
  proof (cases "E pivot")
    case True
    have "binaryInsert cmp xs pivot = pivot # xs"
      by (simp add: binaryInsert_def binarySearch_exact [OF w True] Let_def)
    then have "binaryInsert cmp xs pivot = (pivot # ys) @ zs \<and> list_all E (pivot # ys)
               \<and> list_all (\<lambda>x. \<not> E x) zs"
      using xs ys zs True by simp
    then show ?thesis unfolding exactsFirst_def by blast
  next
    case False
    define n where "n = binarySearch cmp pivot xs 0 (length xs)"
    have pre: "\<forall>i<length ys. E (xs ! i)"
      using xs ys by (simp add: list_all_iff nth_append)
    have n: "length ys \<le> n"
      unfolding n_def by (rule binarySearch_other [OF w False pre]) (simp add: xs)
    have "binaryInsert cmp xs pivot = take n xs @ pivot # drop n xs"
      by (simp add: binaryInsert_def n_def Let_def)
    also have "\<dots> = ys @ (take (n - length ys) zs @ pivot # drop (n - length ys) zs)"
      using n by (simp add: xs)
    finally have eq: "binaryInsert cmp xs pivot
        = ys @ (take (n - length ys) zs @ pivot # drop (n - length ys) zs)" .
    have "list_all (\<lambda>x. \<not> E x) (take (n - length ys) zs @ pivot # drop (n - length ys) zs)"
      using zs False by (auto simp: list_all_iff dest: in_set_takeD in_set_dropD)
    then show ?thesis unfolding exactsFirst_def using eq ys by blast
  qed
qed

lemma foldl_binaryInsert_set:
  "set (foldl (binaryInsert cmp) run rest) = set run \<union> set rest"
  by (induction rest arbitrary: run) (auto simp: binaryInsert_set)

lemma foldl_binaryInsert_exactsFirst:
  "exactWins E cmp \<Longrightarrow> exactsFirst E run \<Longrightarrow>
   exactsFirst E (foldl (binaryInsert cmp) run rest)"
  by (induction rest arbitrary: run) (simp_all add: binaryInsert_exactsFirst)

subsection \<open>The sorted suggestions\<close>

lemma arraySort_set: "set (arraySort cmp xs) = set xs"
proof -
  obtain run rest where r: "countAndMakeRun cmp xs = (run, rest)"
    by (cases "countAndMakeRun cmp xs")
  show ?thesis
    using countAndMakeRun_set [OF r] by (simp add: arraySort_def r foldl_binaryInsert_set)
qed

lemma arraySort_exactsFirst:
  assumes "exactWins E cmp"
  shows "exactsFirst E (arraySort cmp xs)"
proof -
  obtain run rest where r: "countAndMakeRun cmp xs = (run, rest)"
    by (cases "countAndMakeRun cmp xs")
  show ?thesis
    using foldl_binaryInsert_exactsFirst [OF assms countAndMakeRun_exactsFirst [OF assms r]]
    by (simp add: arraySort_def r)
qed

lemma upper_aapl: "toUpperCase ''aapl'' = ''AAPL''"
  by code_simp

text \<open>
  Claim C4. For a non-empty query and suggestions \<open>items\<close> that contain an item whose
  symbol equals the uppercased query, the stored suggestions are not empty and their first
  item has that symbol, wherever such items stood in the input, and the output holds the
  same items as the input. For every query, an empty or missing list of suggestions gives
  the empty list.
\<close>

theorem exact_match_ranked_first:
  "(query \<noteq> [] \<and> x \<in> set items \<and> symbol x = toUpperCase query \<longrightarrow>
      fetchSuggestions query (SearchData None (Some items)) \<noteq> []
    \<and> symbol (hd (fetchSuggestions query (SearchData None (Some items)))) = toUpperCase query
    \<and> set (fetchSuggestions query (SearchData None (Some items))) = set items)
   \<and> sortedSuggestions q (Some []) = []
   \<and> fetchSuggestions q (SearchData None (Some [])) = []
   \<and> fetchSuggestions q (SearchData None None) = []"
proof (intro conjI impI)
  let ?r = "arraySort (compareSuggestions query) items"
  assume a: "query \<noteq> [] \<and> x \<in> set items \<and> symbol x = toUpperCase query"
  have r: "fetchSuggestions query (SearchData None (Some items)) = ?r"
    using a by (simp add: fetchSuggestions_def sortedSuggestions_def)
  have f: "exactsFirst (\<lambda>x. symbol x = toUpperCase query) ?r"
    by (rule arraySort_exactsFirst [OF compare_exactWins])
  have s: "set ?r = set items" by (rule arraySort_set)
  have h: "?r \<noteq> [] \<and> symbol (hd ?r) = toUpperCase query"
    using exactsFirst_hd [OF f, of x] a s by simp
  show "fetchSuggestions query (SearchData None (Some items)) \<noteq> []" using r h by simp
  show "symbol (hd (fetchSuggestions query (SearchData None (Some items)))) = toUpperCase query"
    using r h by simp
  show "set (fetchSuggestions query (SearchData None (Some items))) = set items"
    using r s by simp
next
  show "sortedSuggestions q (Some []) = []"
    by (simp add: sortedSuggestions_def arraySort_def)
next
  show "fetchSuggestions q (SearchData None (Some [])) = []"
    by (simp add: fetchSuggestions_def sortedSuggestions_def arraySort_def)
next
  show "fetchSuggestions q (SearchData None None) = []"
    by (simp add: fetchSuggestions_def sortedSuggestions_def arraySort_def)
qed

theorem exact_match_ranked_first_witness:
  "symbol (hd (fetchSuggestions ''aapl'' (SearchData None (Some [xaapl, aaplu, apple1]))))
     = ''AAPL''
   \<and> symbol (hd (fetchSuggestions ''aapl'' (SearchData None (Some [apple1, xaapl, aaplu]))))
     = ''AAPL''
   \<and> fetchSuggestions ''aapl'' (SearchData None (Some [])) = []"
  using exact_match_ranked_first [of "''aapl''" apple1 "[xaapl, aaplu, apple1]" "''aapl''"]
    exact_match_ranked_first [of "''aapl''" apple1 "[apple1, xaapl, aaplu]" "''aapl''"]
  by (simp add: upper_aapl apple1_def)

text \<open>
  Claim C5 evaluated on two suggestions that both carry the symbol of the query: the
  comparator answers \<open>-1\<close> for either order of the pair, never 0, and the sort returns
  the pair in reverse order.
\<close>

theorem exact_duplicates_reordered:
  "compareSuggestions ''aapl'' apple1 apple2 = -1
   \<and> compareSuggestions ''aapl'' apple2 apple1 = -1
   \<and> fetchSuggestions ''aapl'' (SearchData None (Some [apple1, apple2])) = [apple2, apple1]
   \<and> fetchSuggestions ''aapl'' (SearchData None (Some [xaapl, apple1, aaplu, apple2]))
       = [apple2, apple1, aaplu, xaapl]"
  by code_simp

end
